theory Spec2Isabelle
  imports Complex_Main "HOL-Library.Sublist" "HOL-Library.AList"
begin

section \<open>Python values and exceptions\<close>

text \<open>
  The exceptions the modelled code raises, as values. \<open>WaitingToCompleteException\<close> is the
  repository's own exception (the specification calls it CyclicReference); \<open>PydanticError\<close>
  carries the text of an exception raised inside pydantic's \<open>create_model\<close>.
\<close>

datatype py_error =
    ValueError
  | KeyError
  | TypeError
  | AttributeError
  | IndexError
  | WaitingToCompleteException
  | PydanticError string

text \<open>
  The values that reach the validators and the metadata tables. A \<open>timedelta\<close> is its number
  of microseconds (Python keeps it as exact integers); a \<open>float\<close> is idealised as a real
  number; a \<open>datetime\<close> is carried by the value of its \<open>timestamp()\<close> method.
  \<open>PyUndefined\<close> is pydantic's \<open>PydanticUndefined\<close> marker.
\<close>

datatype py_value =
    PyNone
  | PyUndefined
  | PyBool bool
  | PyInt int
  | PyFloat real
  | PyStr string
  | PyTimedelta int
  | PyDatetime real
  | PyList "py_value list"

section \<open>customer\_validator.py\<close>

text \<open>
  Every validator reads its operand from
  \<open>kwargs["field"].field_info.extra["extra"][key]\<close>; the model takes that innermost
  dictionary as \<open>extra\<close>. A missing key raises \<open>KeyError\<close>.
\<close>

definition startswith :: "string \<Rightarrow> string \<Rightarrow> bool" where
  "startswith v p = (take (length p) v = p)"

definition endswith :: "string \<Rightarrow> string \<Rightarrow> bool" where
  "endswith v p = (drop (length v - length p) v = p)"

definition prefix_validator :: "(string \<rightharpoonup> string) \<Rightarrow> string \<Rightarrow> py_error + string" where
  "prefix_validator extra v =
     (case extra ''prefix'' of
        None \<Rightarrow> Inl KeyError
      | Some field_value \<Rightarrow>
          if \<not> startswith v field_value then Inl ValueError else Inr v)"

definition suffix_validator :: "(string \<rightharpoonup> string) \<Rightarrow> string \<Rightarrow> py_error + string" where
  "suffix_validator extra v =
     (case extra ''suffix'' of
        None \<Rightarrow> Inl KeyError
      | Some field_value \<Rightarrow>
          if \<not> startswith v field_value then Inl ValueError else Inr v)"

subsection \<open>Duration support\<close>


definition duration_le_validator :: "(string \<rightharpoonup> int) \<Rightarrow> int \<Rightarrow> py_error + int" where
  "duration_le_validator extra v =
     (case extra ''duration_le'' of
        None \<Rightarrow> Inl KeyError
      | Some field_value \<Rightarrow>
          if \<not> (v \<ge> field_value) then Inl ValueError else Inr v)"


definition duration_ge_validator :: "(string \<rightharpoonup> int) \<Rightarrow> int \<Rightarrow> py_error + int" where
  "duration_ge_validator extra v =
     (case extra ''duration_ge'' of
        None \<Rightarrow> Inl KeyError
      | Some field_value \<Rightarrow>
          if \<not> (v \<le> field_value) then Inl ValueError else Inr v)"

subsection \<open>Timestamp support\<close>




section \<open>Protobuf descriptors\<close>

definition TYPE_MESSAGE :: nat where "TYPE_MESSAGE = 11"
definition TYPE_ENUM :: nat where "TYPE_ENUM = 14"
definition LABEL_REPEATED :: nat where "LABEL_REPEATED = 3"

text \<open>
  A descriptor graph may be cyclic, so a message descriptor is referred to by a reference
  (its object identity) and read through a pool \<open>desc_ref \<Rightarrow> descriptor\<close>. Of a oneof only
  its names and the names of its member fields are read; of an enum its names, its file and
  its values.
\<close>

type_synonym desc_ref = nat

record oneof_descriptor =
  o_name :: string
  o_full_name :: string
  o_fields :: "string list"

record enum_descriptor =
  e_name :: string
  e_full_name :: string
  e_file_name :: string
  e_values :: "(string \<times> int) list"

record field_descriptor =
  f_name :: string
  f_full_name :: string
  f_type :: nat
  f_label :: nat
  f_message_type :: "desc_ref option"
  f_enum_type :: "enum_descriptor option"
  f_containing_oneof :: "oneof_descriptor option"
  f_default_value :: py_value

record descriptor =
  d_name :: string
  d_full_name :: string
  d_file_name :: string
  d_fields :: "field_descriptor list"
  d_nested_types :: "desc_ref list"
  d_enum_types :: "enum_descriptor list"
  d_oneofs :: "oneof_descriptor list"

section \<open>get\_desc/from\_pgv\<close>

text \<open>
  The description dictionary of a field is a Python dict whose values are plain values,
  nested dicts (under \<open>extra\<close> and \<open>validator\<close>), validator bindings and types. A validator
  binding keeps the field name and what the registry lookup returned.
\<close>

datatype desc_value =
    DVal py_value
  | DDict "(string \<times> desc_value) list"
  | DValidator string "string option"
  | DType string

type_synonym desc_dict = "(string \<times> desc_value) list"







fun truthy :: "py_value \<Rightarrow> bool" where
  "truthy PyNone = False"
| "truthy PyUndefined = True"
| "truthy (PyBool b) = b"
| "truthy (PyInt i) = (i \<noteq> 0)"
| "truthy (PyFloat x) = (x \<noteq> 0)"
| "truthy (PyStr s) = (s \<noteq> [])"
| "truthy (PyTimedelta d) = (d \<noteq> 0)"
| "truthy (PyDatetime t) = True"
| "truthy (PyList xs) = (xs \<noteq> [])"

definition is_upper :: "char \<Rightarrow> bool" where
  "is_upper c = (c \<in> set ''ABCDEFGHIJKLMNOPQRSTUVWXYZ'')"







section \<open>gen\_model.py: strings, types and state\<close>

subsection \<open>The string operations of Python that the code uses\<close>

text \<open>
  Strings are ASCII here. \<open>split_on c s\<close> is \<open>s.split(c)\<close> for a one-character separator
  (it never returns the empty list), \<open>join_with sep xs\<close> is \<open>sep.join(xs)\<close>, \<open>replace_char\<close>
  is \<open>str.replace\<close> with a one-character pattern, \<open>contains_str sub s\<close> is \<open>sub in s\<close>.
\<close>

fun split_on :: "char \<Rightarrow> string \<Rightarrow> string list" where
  "split_on c [] = [[]]"
| "split_on c (x # xs) =
     (if x = c then [] # split_on c xs
      else (case split_on c xs of
              [] \<Rightarrow> [[x]]
            | w # ws \<Rightarrow> (x # w) # ws))"

fun join_with :: "string \<Rightarrow> string list \<Rightarrow> string" where
  "join_with sep [] = []"
| "join_with sep [x] = x"
| "join_with sep (x # y # ys) = x @ sep @ join_with sep (y # ys)"

definition replace_char :: "char \<Rightarrow> string \<Rightarrow> string \<Rightarrow> string" where
  "replace_char c new s = concat (map (\<lambda>x. if x = c then new else [x]) s)"

fun contains_str :: "string \<Rightarrow> string \<Rightarrow> bool" where
  "contains_str sub [] = (sub = [])"
| "contains_str sub (x # xs) = (startswith (x # xs) sub \<or> contains_str sub xs)"

definition is_lower :: "char \<Rightarrow> bool" where
  "is_lower c = (c \<in> set ''abcdefghijklmnopqrstuvwxyz'')"

definition to_upper :: "char \<Rightarrow> char" where
  "to_upper c =
     (case map_of (zip ''abcdefghijklmnopqrstuvwxyz'' ''ABCDEFGHIJKLMNOPQRSTUVWXYZ'') c of
        Some u \<Rightarrow> u | None \<Rightarrow> c)"

definition to_lower :: "char \<Rightarrow> char" where
  "to_lower c =
     (case map_of (zip ''ABCDEFGHIJKLMNOPQRSTUVWXYZ'' ''abcdefghijklmnopqrstuvwxyz'') c of
        Some l \<Rightarrow> l | None \<Rightarrow> c)"

definition lower :: "string \<Rightarrow> string" where
  "lower s = map to_lower s"

text \<open>
  \<open>str.title()\<close>: a letter that follows a letter is lowered, any other letter is raised.
  The flag says whether the previous character was a letter.
\<close>

fun title_from :: "bool \<Rightarrow> string \<Rightarrow> string" where
  "title_from prev [] = []"
| "title_from prev (c # cs) =
     (if is_lower c \<or> is_upper c
      then (if prev then to_lower c else to_upper c) # title_from True cs
      else c # title_from False cs)"

definition title :: "string \<Rightarrow> string" where
  "title s = title_from False s"

text \<open>
  \<open>Path(s).parts\<close> of a POSIX path without \<open>.\<close> components (the name was cut at its first
  dot before): the components between slashes, after a first part for the leading slashes
  (exactly two leading slashes are kept as \<open>//\<close>).
\<close>

definition path_parts :: "string \<Rightarrow> string list" where
  "path_parts s =
     (let lead = length (takeWhile (\<lambda>c. c = CHR ''/'') s)
      in (if lead = 0 then [] else if lead = 2 then [''//''] else [''/''])
         @ filter (\<lambda>p. p \<noteq> []) (split_on CHR ''/'' s))"

text \<open>\<open>first_part c s\<close> is \<open>s.split(c)[0]\<close>.\<close>

definition first_part :: "char \<Rightarrow> string \<Rightarrow> string" where
  "first_part c s = takeWhile (\<lambda>x. x \<noteq> c) s"

definition replace_file_name_to_class_name :: "string \<Rightarrow> string" where
  "replace_file_name_to_class_name filename =
     (let prefix = concat (map title (path_parts (first_part CHR ''.'' filename)))
      in replace_char CHR ''_'' [] prefix)"

subsection \<open>Types, classes and the compiler's state\<close>

text \<open>
  The value of \<open>field_type\<close>: \<open>None\<close>, a type known by its name (a builtin or library
  type), a class created during the compilation (a reference into the heap of classes), a
  string used as a postponed annotation, or \<open>List\<close>, \<open>Optional\<close> and \<open>Dict\<close> of types.
\<close>

datatype py_type =
    TNone
  | TNamed string
  | TClass nat
  | TStr string
  | TList py_type
  | TOptional py_type
  | TDict "py_type list"

text \<open>The values of the dictionaries of field parameters.\<close>

datatype param =
    PVal py_value
  | PType py_type
  | PCallable string
  | PValidators "(string \<times> string) list"
  | PMapType "(string \<times> py_type) list"

type_synonym param_dict = "(string \<times> param) list"

fun truthy_param :: "param \<Rightarrow> bool" where
  "truthy_param (PVal v) = truthy v"
| "truthy_param (PType t) = (t \<noteq> TNone \<and> t \<noteq> TStr [])"
| "truthy_param (PCallable f) = True"
| "truthy_param (PValidators vs) = (vs \<noteq> [])"
| "truthy_param (PMapType m) = (m \<noteq> [])"

fun type_of_param :: "param \<Rightarrow> py_type" where
  "type_of_param (PType t) = t"
| "type_of_param (PVal (PyStr s)) = TStr s"
| "type_of_param _ = TNamed ''object''"

text \<open>
  The metadata handed over by the extraction modules (\<open>DescFromOptionTypedDict\<close>): the
  per-field dictionaries, the oneof entries, the nested messages and the flags.
\<close>

record one_of_doc =
  od_required :: bool
  od_optional_fields :: "string list"

datatype desc_from_option =
  DescFromOption
    (dfo_message: "(string \<times> param_dict) list")
    (dfo_one_of: "(string \<times> one_of_doc) list")
    (dfo_nested: "(string \<times> desc_from_option) list")
    (dfo_metadata: "(string \<times> bool) list")

record field_info =
  fi_field :: string
  fi_params :: param_dict

record use_one_of =
  uo_required :: bool
  uo_fields :: "string list"

record code_ref =
  cr_one_of_dict :: "(string \<times> use_one_of) list"
  cr_nested_message_dict :: "(string \<times> nat) list"
  cr_validators :: "(string \<times> string) list"

text \<open>
  A class created by the compiler: a pydantic model (made by \<open>create_model\<close>) or an
  \<open>IntEnum\<close>, with the attributes the code sets on it afterwards.
\<close>

record py_class =
  c_name :: string
  c_is_enum :: bool
  c_members :: "(string \<times> int) list"
  c_annotation :: "(string \<times> py_type \<times> field_info) list"
  c_validators :: "(string \<times> string) list"
  c_module :: string
  c_config :: "(string \<times> bool) list"
  c_doc :: "string option"
  c_is_nested :: "bool option"
  c_is_use :: "bool option"
  c_code_ref :: "code_ref option"
  c_one_of_dict :: "(string \<times> use_one_of) list option"

text \<open>
  The cache maps a key (message full name, class name, skip flag) to \<open>None\<close> while the model
  is being generated and to the model afterwards. Caches are dict objects that several
  compilations may share, so the state holds a store of caches addressed by reference:
  the module-level \<open>_create_model_cache\<close> and the dicts owned by callers.
\<close>

type_synonym message_key = "string \<times> string \<times> bool"
type_synonym cache = "(message_key \<times> nat option) list"

datatype cache_ref = ModuleCache | CallerCache nat

record state =
  store :: "cache_ref \<Rightarrow> cache"
  heap :: "py_class list"

datatype desc_method = MethodNone | MethodStr string | MethodModule

record m2p =
  parse_msg_desc_method :: desc_method
  field_doc_dict :: "(string \<times> desc_from_option) list"
  default_field :: string
  creat_cache :: cache_ref
  pydantic_base_arbitrary_types_allowed :: bool
  pydantic_module :: string
  message_type_dict_by_type_name :: "(string \<times> py_type) list"
  message_default_factory_dict_by_type_name :: "(string \<times> string) list"

text \<open>
  What the code imports from modules that are not among the sources at hand, and from
  pydantic and the Python library, is a parameter of the model: the descriptor pool, the
  tables of the \<open>constant\<close> module, the helpers of \<open>field_param\<close>, \<open>template\<close> and
  \<open>from_pb_option\<close>, the pydantic version switch, \<open>importlib\<close>, the type tests of the map
  branch, and \<open>create_model\<close>, of which only the text of the exception it raises (if any) is
  needed.
\<close>

record env =
  pool :: "desc_ref \<Rightarrow> descriptor"
  is_v1 :: bool
  protobuf_desc_python_type_dict :: "(nat \<times> py_type) list"
  protobuf_common_type_dict :: "(nat \<times> string) list"
  handle_template_var :: "param_dict \<Rightarrow> param_dict"
  field_comment_handler :: "param_dict \<Rightarrow> field_descriptor \<Rightarrow> string option \<Rightarrow> param_dict"
  FieldParamModel_dict :: "param_dict \<Rightarrow> py_error + param_dict"
  field_param_dict_handle ::
    "param_dict \<Rightarrow> py_value \<Rightarrow> string option \<Rightarrow> py_type \<Rightarrow> py_error + param_dict"
  field_param_dict_migration_v2_handler :: "param_dict \<Rightarrow> param_dict"
  accept_map_type :: "py_type \<Rightarrow> py_type \<Rightarrow> bool"
  import_type :: "string \<Rightarrow> string \<Rightarrow> py_error + string"
  create_model_error ::
    "string \<Rightarrow> (string \<times> py_type \<times> field_info) list \<Rightarrow> (string \<times> bool) list \<Rightarrow> string option"

record field_dataclass =
  field_name :: string
  field_type :: py_type
  field_type_name :: "string option"
  field_default :: py_value
  field_default_factory :: "string option"
  protobuf_field :: field_descriptor
  nested_message_dict :: "(string \<times> nat) list"
  descriptor :: descriptor
  validators :: "(string \<times> string) list"

text \<open>
  A computation returns a value or raises, and leaves a state in both cases; \<open>None\<close> means
  that the recursion depth given to the model was used up.
\<close>

type_synonym 'a res = "((py_error + 'a) \<times> state) option"

definition returns :: "'a \<Rightarrow> state \<Rightarrow> 'a res" where
  "returns x s = Some (Inr x, s)"

definition raises :: "py_error \<Rightarrow> state \<Rightarrow> 'a res" where
  "raises e s = Some (Inl e, s)"

definition bind :: "'a res \<Rightarrow> ('a \<Rightarrow> state \<Rightarrow> 'b res) \<Rightarrow> 'b res" where
  "bind r f =
     (case r of
        None \<Rightarrow> None
      | Some (Inl e, s) \<Rightarrow> Some (Inl e, s)
      | Some (Inr x, s) \<Rightarrow> f x s)"

definition lift :: "py_error + 'a \<Rightarrow> state \<Rightarrow> 'a res" where
  "lift r s = (case r of Inl e \<Rightarrow> raises e s | Inr x \<Rightarrow> returns x s)"

text \<open>Creating a class puts it on the heap; \<open>setattr\<close> on a class updates it there.\<close>

definition new_class :: "py_class \<Rightarrow> state \<Rightarrow> nat \<times> state" where
  "new_class c s = (length (heap s), s\<lparr>heap := heap s @ [c]\<rparr>)"

definition set_class_attr :: "nat \<Rightarrow> (py_class \<Rightarrow> py_class) \<Rightarrow> state \<Rightarrow> state" where
  "set_class_attr r f s =
     (if r < length (heap s) then s\<lparr>heap := (heap s)[r := f (heap s ! r)]\<rparr> else s)"

definition cache_of :: "m2p \<Rightarrow> state \<Rightarrow> cache" where
  "cache_of self s = store s (creat_cache self)"

definition cache_set :: "m2p \<Rightarrow> message_key \<Rightarrow> nat option \<Rightarrow> state \<Rightarrow> state" where
  "cache_set self key v s =
     s\<lparr>store := (store s)(creat_cache self := AList.update key v (store s (creat_cache self)))\<rparr>"

section \<open>gen\_model.py: the metadata lookups\<close>

definition dict_flag :: "(string \<times> bool) list \<Rightarrow> string \<Rightarrow> bool" where
  "dict_flag d k = (case map_of d k of Some b \<Rightarrow> b | None \<Rightarrow> False)"

text \<open>
  \<open>_get_field_info_dict_by_full_name\<close>. The loop over \<open>key_list\<close> is \<open>descend\<close>; unpacking
  \<open>message_name, *key_list\<close> from an empty list raises \<open>ValueError\<close>.
\<close>

fun descend :: "desc_from_option \<Rightarrow> string list \<Rightarrow> param_dict option" where
  "descend desc_dict [] = None"
| "descend desc_dict (key # key_list) =
     (case map_of (dfo_message desc_dict) key of
        Some info \<Rightarrow> Some info
      | None \<Rightarrow>
          (case map_of (dfo_nested desc_dict) key of
             Some nested \<Rightarrow>
               if dict_flag (dfo_metadata nested) ''ignored'' then None
               else descend nested key_list
           | None \<Rightarrow> None))"

definition get_field_info_dict_by_full_name :: "m2p \<Rightarrow> string \<Rightarrow> py_error + param_dict option" where
  "get_field_info_dict_by_full_name self full_name =
     (let split_full_name = split_on CHR ''.'' full_name;
          names = (if length split_full_name = 2 then split_full_name else drop 1 split_full_name)
      in case names of
           [] \<Rightarrow> Inl ValueError
         | message_name # key_list \<Rightarrow>
             (case map_of (field_doc_dict self) message_name of
                None \<Rightarrow> Inr None
              | Some desc_dict \<Rightarrow>
                  if dict_flag (dfo_metadata desc_dict) ''ignore'' then Inr None
                  else Inr (descend desc_dict key_list)))"

subsection \<open>\<open>_one_of_handle\<close>\<close>

text \<open>
  The first loop, over the fields: a field whose oneof is called \<open>_\<close> followed by the
  field's name is a proto3 optional field. \<open>optional_dict\<close> maps a field's full name to its
  \<open>is_proto3_optional\<close> flag.
\<close>

fun optional_fields_loop ::
  "field_descriptor list \<Rightarrow> string list \<times> (string \<times> bool) list \<Rightarrow> string list \<times> (string \<times> bool) list" where
  "optional_fields_loop [] acc = acc"
| "optional_fields_loop (field # rest) (optional_id_set, optional_dict) =
     (case f_containing_oneof field of
        None \<Rightarrow> optional_fields_loop rest (optional_id_set, optional_dict)
      | Some containing_oneof \<Rightarrow>
          if ''_'' @ f_name field = o_name containing_oneof
          then optional_fields_loop rest
                 (List.insert (o_full_name containing_oneof) optional_id_set,
                  AList.update (f_full_name field) True optional_dict)
          else optional_fields_loop rest (optional_id_set, optional_dict))"

definition apply_one_of_desc ::
  "(string \<times> one_of_doc) list \<Rightarrow> string \<Rightarrow> string \<Rightarrow> string \<Rightarrow>
   (string \<times> use_one_of) list \<times> (string \<times> bool) list \<Rightarrow>
   (string \<times> use_one_of) list \<times> (string \<times> bool) list" where
  "apply_one_of_desc one_of_desc_dict descriptor_full_name column_name found_column_name acc =
     (case acc of (one_of_dict, optional_dict) \<Rightarrow>
        (case map_of one_of_desc_dict found_column_name of
           None \<Rightarrow> (one_of_dict, optional_dict)
         | Some doc \<Rightarrow>
             (AList.map_entry column_name (\<lambda>u. u\<lparr>uo_required := od_required doc\<rparr>) one_of_dict,
              fold (\<lambda>field_name od. AList.update (descriptor_full_name @ ''.'' @ field_name) True od)
                (od_optional_fields doc) optional_dict)))"

fun oneofs_loop ::
  "(string \<times> one_of_doc) list \<Rightarrow> string \<Rightarrow> string list \<Rightarrow> oneof_descriptor list \<Rightarrow>
   (string \<times> use_one_of) list \<times> (string \<times> bool) list \<Rightarrow>
   (string \<times> use_one_of) list \<times> (string \<times> bool) list" where
  "oneofs_loop one_of_desc_dict descriptor_full_name optional_id_set [] acc = acc"
| "oneofs_loop one_of_desc_dict descriptor_full_name optional_id_set (one_of # rest)
       (one_of_dict, optional_dict) =
     (let column_name = o_full_name one_of in
      if column_name \<in> set optional_id_set
      then oneofs_loop one_of_desc_dict descriptor_full_name optional_id_set rest
             (one_of_dict, optional_dict)
      else
        let one_of_dict1 =
              (if map_of one_of_dict column_name = None
               then AList.update column_name \<lparr>uo_required = False, uo_fields = []\<rparr> one_of_dict
               else one_of_dict);
            acc1 = apply_one_of_desc one_of_desc_dict descriptor_full_name column_name
                     column_name (one_of_dict1, optional_dict);
            acc2 = apply_one_of_desc one_of_desc_dict descriptor_full_name column_name
                     (join_with ''.'' (drop 1 (split_on CHR ''.'' column_name))) acc1;
            one_of_dict3 =
              AList.map_entry column_name
                (\<lambda>u. u\<lparr>uo_fields := fold List.insert (o_fields one_of) (uo_fields u)\<rparr>) (fst acc2)
        in oneofs_loop one_of_desc_dict descriptor_full_name optional_id_set rest
             (one_of_dict3, snd acc2))"

definition one_of_handle ::
  "m2p \<Rightarrow> descriptor \<Rightarrow> (string \<times> use_one_of) list \<times> (string \<times> bool) list" where
  "one_of_handle self desc =
     (let desc_dict = map_of (field_doc_dict self) (d_name desc);
          ignore_parse_rule =
            (case desc_dict of None \<Rightarrow> False | Some d \<Rightarrow> dict_flag (dfo_metadata d) ''ignored'');
          one_of_desc_dict =
            (if \<not> ignore_parse_rule
             then (case desc_dict of None \<Rightarrow> [] | Some d \<Rightarrow> dfo_one_of d)
             else []);
          opt = optional_fields_loop (d_fields desc) ([], [])
      in oneofs_loop one_of_desc_dict (d_full_name desc) (fst opt) (d_oneofs desc)
           ([], snd opt))"

section \<open>gen\_model.py: nested types and field handlers\<close>

text \<open>
  The recursive calls of \<open>_parse_msg_to_pydantic_model\<close> are made through the parameter
  \<open>rec\<close> (descriptor, class name, skip flag); an empty class name stands for the default
  \<open>""\<close> of the keyword argument.
\<close>

type_synonym parse_fun = "desc_ref \<Rightarrow> string \<Rightarrow> bool \<Rightarrow> state \<Rightarrow> nat res"

definition enum_class :: "string \<Rightarrow> (string \<times> int) list \<Rightarrow> string \<Rightarrow> py_class" where
  "enum_class name vals doc =
     \<lparr> c_name = name, c_is_enum = True,
       c_members = fold (\<lambda>(n, v) d. AList.update n v d) vals [],
       c_annotation = [], c_validators = [], c_module = [], c_config = [],
       c_doc = Some doc, c_is_nested = None, c_is_use = None,
       c_code_ref = None, c_one_of_dict = None \<rparr>"

definition mark_nested :: "nat \<Rightarrow> state \<Rightarrow> state" where
  "mark_nested r s = set_class_attr r (\<lambda>c. c\<lparr>c_is_nested := Some True\<rparr>) s"

definition mark_use :: "nat \<Rightarrow> bool \<Rightarrow> state \<Rightarrow> state" where
  "mark_use r b s = set_class_attr r (\<lambda>c. c\<lparr>c_is_use := Some b\<rparr>) s"

fun nested_types_loop ::
  "parse_fun \<Rightarrow> env \<Rightarrow> desc_ref list \<Rightarrow> (string \<times> nat) list \<Rightarrow> state \<Rightarrow> (string \<times> nat) list res" where
  "nested_types_loop rec E [] nested s = returns nested s"
| "nested_types_loop rec E (message # rest) nested s =
     (if endswith (d_name (pool E message)) ''Entry''
      then nested_types_loop rec E rest nested s
      else bind (rec message [] False s)
             (\<lambda>nested_type s1.
                nested_types_loop rec E rest
                  (AList.update (d_full_name (pool E message)) nested_type nested)
                  (mark_use nested_type False (mark_nested nested_type s1))))"

fun enum_types_loop ::
  "enum_descriptor list \<Rightarrow> (string \<times> nat) list \<Rightarrow> state \<Rightarrow> (string \<times> nat) list \<times> state" where
  "enum_types_loop [] nested s = (nested, s)"
| "enum_types_loop (enum_type # rest) nested s =
     (case new_class (enum_class (e_name enum_type) (e_values enum_type) []) s of
        (nested_type, s1) \<Rightarrow>
          enum_types_loop rest (AList.update (e_full_name enum_type) nested_type nested)
            (mark_use nested_type False (mark_nested nested_type s1)))"

definition get_nested_message_dict_by_message ::
  "parse_fun \<Rightarrow> env \<Rightarrow> descriptor \<Rightarrow> state \<Rightarrow> (string \<times> nat) list res" where
  "get_nested_message_dict_by_message rec E desc s =
     bind (nested_types_loop rec E (d_nested_types desc) [] s)
       (\<lambda>nested s1.
          case enum_types_loop (d_enum_types desc) nested s1 of
            (nested', s2) \<Rightarrow> returns nested' s2)"

subsection \<open>\<open>_protobuf_field_type_is_type_message_handler\<close>\<close>

text \<open>The loop over the key and value fields of a map entry.\<close>

fun k_v_loop ::
  "parse_fun \<Rightarrow> env \<Rightarrow> m2p \<Rightarrow> field_descriptor list \<Rightarrow> py_type list \<Rightarrow> state \<Rightarrow> py_type list res" where
  "k_v_loop rec E self [] dict_type_param_list s = returns dict_type_param_list s"
| "k_v_loop rec E self (k_v_field # rest) dict_type_param_list s =
     (case f_message_type k_v_field of
        None \<Rightarrow>
          (case map_of (protobuf_desc_python_type_dict E) (f_type k_v_field) of
             None \<Rightarrow> raises KeyError s
           | Some k_v_type \<Rightarrow> k_v_loop rec E self rest (dict_type_param_list @ [k_v_type]) s)
      | Some mref \<Rightarrow>
          (case map_of (message_type_dict_by_type_name self) (d_name (pool E mref)) of
             Some k_v_type \<Rightarrow> k_v_loop rec E self rest (dict_type_param_list @ [k_v_type]) s
           | None \<Rightarrow>
               bind (rec mref [] False s)
                 (\<lambda>model s1.
                    k_v_loop rec E self rest (dict_type_param_list @ [TClass model]) s1)))"

definition quoted :: "string \<Rightarrow> string" where
  "quoted name = [CHR 0x22] @ name @ [CHR 0x22]"

definition other_package_doc :: "string \<Rightarrow> string \<Rightarrow> string" where
  "other_package_doc class_name file_name =
     ''Note: The current class does not belong to the package'' @ [CHR 0x0A]
       @ class_name @ '' protobuf path:'' @ file_name"

text \<open>
  The skip directive of a field: \<open>field_doc_dict.get("skip", False)\<close>, where
  \<open>field_doc_dict\<close> is the field's metadata \<open>or {}\<close>.
\<close>

definition skip_validate_rule_of :: "param_dict option \<Rightarrow> bool" where
  "skip_validate_rule_of info =
     (case map_of (case info of None \<Rightarrow> [] | Some d \<Rightarrow> d) ''skip'' of
        None \<Rightarrow> False
      | Some p \<Rightarrow> truthy_param p)"

text \<open>
  The last branch of the handler (\<open>support google.protobuf.Message\<close>): the message type is
  an ordinary message. \<open>mref\<close> is \<open>protobuf_field.message_type\<close>.
\<close>

definition ordinary_message_handler ::
  "parse_fun \<Rightarrow> env \<Rightarrow> m2p \<Rightarrow> desc_ref \<Rightarrow> field_dataclass \<Rightarrow> state \<Rightarrow> field_dataclass res" where
  "ordinary_message_handler rec E self mref fdc s =
     (let message_type = pool E mref in
      case get_field_info_dict_by_full_name self (f_full_name (protobuf_field fdc)) of
        Inl e \<Rightarrow> raises e s
      | Inr info \<Rightarrow>
         (let skip_validate_rule = skip_validate_rule_of info;
              full_name = d_full_name message_type
          in
          case map_of (nested_message_dict fdc) full_name of
            Some known \<Rightarrow>
              if skip_validate_rule
              then
                (case filter (\<lambda>i. d_full_name (pool E i) = full_name)
                        (d_nested_types (descriptor fdc)) of
                   [] \<Rightarrow> raises IndexError s
                 | nested_message # _ \<Rightarrow>
                     bind (rec nested_message (d_name message_type @ ''OnlyUseSkipRule'')
                             skip_validate_rule s)
                       (\<lambda>nested_type s1.
                          returns
                            (fdc\<lparr>nested_message_dict :=
                                    AList.update (full_name @ ''OnlyUseSkipRule'') nested_type
                                      (nested_message_dict fdc),
                                  field_type := TClass nested_type\<rparr>)
                            (mark_use nested_type True (mark_nested nested_type s1))))
              else returns (fdc\<lparr>field_type := TClass known\<rparr>) (mark_use known True s)
          | None \<Rightarrow>
              (let is_same_pkg = (d_file_name (descriptor fdc) = d_file_name message_type);
                   class_name = d_name message_type
               in
               if \<not> is_same_pkg
               then
                 (let class_name' =
                        replace_file_name_to_class_name (d_file_name message_type) @ class_name
                  in bind (rec mref class_name' skip_validate_rule s)
                       (\<lambda>model s1.
                          returns (fdc\<lparr>field_type := TClass model\<rparr>)
                            (set_class_attr model
                               (\<lambda>c. c\<lparr>c_doc := Some (other_package_doc class_name'
                                                         (d_file_name message_type))\<rparr>) s1)))
               else
                 (let fdc1 = fdc\<lparr>field_type := TStr (quoted class_name)\<rparr>;
                      use_class_name =
                        (if \<not> skip_validate_rule then class_name
                         else class_name @ ''OnlyUseSkipRule'')
                  in
                  if skip_validate_rule \<or> d_full_name message_type \<noteq> d_full_name (descriptor fdc)
                  then
                    (case rec mref use_class_name skip_validate_rule s of
                       None \<Rightarrow> None
                     | Some (Inr model, s1) \<Rightarrow> returns (fdc1\<lparr>field_type := TClass model\<rparr>) s1
                     | Some (Inl e, s1) \<Rightarrow>
                         if e = WaitingToCompleteException then returns fdc1 s1
                         else raises e s1)
                  else returns fdc1 s))))"

definition protobuf_field_type_is_type_message_handler ::
  "parse_fun \<Rightarrow> env \<Rightarrow> m2p \<Rightarrow> field_dataclass \<Rightarrow> state \<Rightarrow> field_dataclass res" where
  "protobuf_field_type_is_type_message_handler rec E self fdc s =
     (case f_message_type (protobuf_field fdc) of
        None \<Rightarrow> raises AttributeError s
      | Some mref \<Rightarrow>
         (let message_type = pool E mref in
          case map_of (message_type_dict_by_type_name self) (d_name message_type) of
            Some t \<Rightarrow>
              returns
                (fdc\<lparr>field_type_name := Some (lower (d_name message_type)),
                      field_type := t,
                      field_default_factory :=
                        (case map_of (message_default_factory_dict_by_type_name self)
                                (d_name message_type) of
                           Some f \<Rightarrow> Some f
                         | None \<Rightarrow> field_default_factory fdc)\<rparr>) s
          | None \<Rightarrow>
              if endswith (d_name message_type) ''Entry''
              then
                bind (k_v_loop rec E self (d_fields message_type) [] s)
                  (\<lambda>dict_type_param_list s1.
                     if length dict_type_param_list = 2
                     then returns
                            (fdc\<lparr>field_type_name := Some ''map'',
                                  field_type := TDict dict_type_param_list,
                                  field_default_factory := Some ''dict''\<rparr>) s1
                     else raises TypeError s1)
              else if startswith (d_file_name message_type) ''google/protobuf/''
              then
                (case import_type E
                        (replace_char CHR ''/'' ''.'' (first_part CHR ''.'' (d_file_name message_type))
                           @ ''_pb2'')
                        (d_name message_type) of
                   Inl e \<Rightarrow> raises e s
                 | Inr type_factory \<Rightarrow>
                     returns (fdc\<lparr>field_type := TNamed type_factory,
                                   field_default_factory := Some type_factory\<rparr>) s)
              else ordinary_message_handler rec E self mref fdc s))"

subsection \<open>The enum and repeated handlers\<close>

definition protobuf_field_type_is_type_enum_handler ::
  "field_dataclass \<Rightarrow> state \<Rightarrow> field_dataclass res" where
  "protobuf_field_type_is_type_enum_handler fdc s =
     (let fdc0 = fdc\<lparr>field_default := PyInt 0, field_type_name := Some ''enum''\<rparr> in
      case f_enum_type (protobuf_field fdc) of
        None \<Rightarrow> raises AttributeError s
      | Some enum_type \<Rightarrow>
          (case map_of (nested_message_dict fdc) (e_full_name enum_type) of
             Some known \<Rightarrow> returns (fdc0\<lparr>field_type := TClass known\<rparr>) (mark_use known True s)
           | None \<Rightarrow>
               (let other = (d_file_name (descriptor fdc) \<noteq> e_file_name enum_type);
                    class_name =
                      (if other
                       then replace_file_name_to_class_name (e_file_name enum_type) @ e_name enum_type
                       else e_name enum_type);
                    class_doc =
                      (if other then other_package_doc class_name (e_file_name enum_type) else [])
                in case new_class (enum_class class_name (e_values enum_type) class_doc) s of
                     (r, s1) \<Rightarrow> returns (fdc0\<lparr>field_type := TClass r\<rparr>) s1)))"

definition protobuf_field_lable_is_label_repeated_handler ::
  "env \<Rightarrow> field_dataclass \<Rightarrow> field_dataclass" where
  "protobuf_field_lable_is_label_repeated_handler E fdc =
     (if \<not> (case f_message_type (protobuf_field fdc) of
               None \<Rightarrow> False
             | Some mref \<Rightarrow> endswith (d_name (pool E mref)) ''Entry'')
      then fdc\<lparr>field_type := TList (field_type fdc),
                field_default_factory := Some ''list'',
                field_type_name := Some ''repeated'',
                field_default := PyUndefined\<rparr>
      else fdc)"

section \<open>gen\_model.py: field information and the model builder\<close>

subsection \<open>\<open>_gen_field_info\<close>\<close>

definition dict_update_validators ::
  "param \<Rightarrow> (string \<times> string) list \<Rightarrow> py_error + (string \<times> string) list" where
  "dict_update_validators p vs =
     (case p of
        PValidators d \<Rightarrow> Inr (fold (\<lambda>(k, v) acc. AList.update k v acc) d vs)
      | _ \<Rightarrow> Inl TypeError)"

text \<open>
  The branch \<open>elif map_type_dict and field_dataclass.field_type._name == "Dict"\<close>: only the
  aliases of \<open>typing\<close> have a \<open>_name\<close>; the test \<open>get_origin(new) is Annotated or
  issubclass(new, raw) or raw is datetime.datetime\<close> is the parameter \<open>accept_map_type\<close>.
\<close>

definition map_type_entry :: "env \<Rightarrow> (string \<times> py_type) list \<Rightarrow> string \<Rightarrow> py_type \<Rightarrow> py_type" where
  "map_type_entry E map_type_dict k_v_column raw_k_v_type =
     (case map_of map_type_dict k_v_column of
        None \<Rightarrow> raw_k_v_type
      | Some new_k_v_type \<Rightarrow>
          if accept_map_type E new_k_v_type raw_k_v_type then new_k_v_type else raw_k_v_type)"

definition map_type_branch :: "env \<Rightarrow> param \<Rightarrow> py_type \<Rightarrow> py_error + py_type" where
  "map_type_branch E map_type_dict t =
     (case t of
        TDict args \<Rightarrow>
          (case map_type_dict of
             PMapType m \<Rightarrow>
               (case args of
                  [k, v] \<Rightarrow> Inr (TDict [map_type_entry E m ''keys'' k, map_type_entry E m ''values'' v])
                | k # v # _ \<Rightarrow> Inl TypeError
                | _ \<Rightarrow> Inl IndexError)
           | _ \<Rightarrow> Inl TypeError)
      | TList _ \<Rightarrow> Inr t
      | TOptional _ \<Rightarrow> Inr t
      | _ \<Rightarrow> Inl AttributeError)"

text \<open>The last two lines: the migration for pydantic 2 and the call \<open>field(**field_param_dict)\<close>.\<close>

definition make_field_info ::
  "env \<Rightarrow> param \<Rightarrow> param_dict \<Rightarrow> field_dataclass \<Rightarrow> py_error + field_info option \<times> field_dataclass" where
  "make_field_info E field field_param_dict fdc =
     (let field_param_dict' =
            (if \<not> is_v1 E then field_param_dict_migration_v2_handler E field_param_dict
             else field_param_dict)
      in case field of
           PCallable f \<Rightarrow> Inr (Some \<lparr>fi_field = f, fi_params = field_param_dict'\<rparr>, fdc)
         | _ \<Rightarrow> Inl TypeError)"

text \<open>
  The three steps of the branch with metadata, after \<open>enable\<close> was found true: updating the
  shared \<open>validators\<close>, the unified handling of the parameters with the two \<open>pop\<close>s that
  follow it, and the choice of the field class.
\<close>

definition update_field_validators ::
  "env \<Rightarrow> param_dict \<Rightarrow> param \<Rightarrow> (string \<times> string) list \<Rightarrow> py_error + (string \<times> string) list" where
  "update_field_validators E doc validator_dict vs =
     (if truthy_param validator_dict
      then (if is_v1 E then dict_update_validators validator_dict vs
            else (case map_of doc ''validator'' of
                    None \<Rightarrow> Inl KeyError
                  | Some v \<Rightarrow> dict_update_validators v vs))
      else Inr vs)"

definition pop_type_and_map_type ::
  "env \<Rightarrow> param_dict \<Rightarrow> py_type \<Rightarrow> py_error + py_type \<times> param_dict" where
  "pop_type_and_map_type E p4 current_type =
     (let type_param = (case map_of p4 ''type_'' of None \<Rightarrow> PType current_type | Some t \<Rightarrow> t);
          p5 = AList.delete ''type_'' p4;
          map_type_dict = (case map_of p5 ''map_type'' of None \<Rightarrow> PMapType [] | Some m \<Rightarrow> m);
          p6 = AList.delete ''map_type'' p5
      in case (if truthy_param type_param then Inr (type_of_param type_param)
               else if truthy_param map_type_dict
               then map_type_branch E map_type_dict current_type
               else Inr current_type) of
           Inl e \<Rightarrow> Inl e
         | Inr t \<Rightarrow> Inr (t, p6))"

definition gen_field_info_enabled ::
  "env \<Rightarrow> m2p \<Rightarrow> field_dataclass \<Rightarrow> param_dict \<Rightarrow> param_dict \<Rightarrow>
   py_error + field_info option \<times> field_dataclass" where
  "gen_field_info_enabled E self fdc doc p0 =
     (case map_of p0 ''field'' of
        None \<Rightarrow> Inl KeyError
      | Some fld \<Rightarrow>
         (case map_of p0 ''validator'' of
            None \<Rightarrow> Inl KeyError
          | Some validator_dict \<Rightarrow>
             (case update_field_validators E doc validator_dict (validators fdc) of
                Inl e \<Rightarrow> Inl e
              | Inr vs \<Rightarrow>
                 (case field_param_dict_handle E
                         (AList.delete ''validator''
                            (AList.delete ''field'' (AList.delete ''enable'' p0)))
                         (field_default fdc) (field_default_factory fdc) (field_type fdc) of
                    Inl e \<Rightarrow> Inl e
                  | Inr p4 \<Rightarrow>
                     (case pop_type_and_map_type E p4 (field_type fdc) of
                        Inl e \<Rightarrow> Inl e
                      | Inr (t, p6) \<Rightarrow>
                          make_field_info E
                            (if truthy_param fld then fld else PCallable (default_field self))
                            p6
                            (fdc\<lparr>field_type := t, validators := vs\<rparr>))))))"

definition gen_field_info ::
  "env \<Rightarrow> m2p \<Rightarrow> field_dataclass \<Rightarrow> bool \<Rightarrow> py_error + field_info option \<times> field_dataclass" where
  "gen_field_info E self fdc skip_validate_rule =
     (case get_field_info_dict_by_full_name self (f_full_name (protobuf_field fdc)) of
        Inl e \<Rightarrow> Inl e
      | Inr info \<Rightarrow>
         (case (if skip_validate_rule then None else info) of
            None \<Rightarrow>
              make_field_info E (PCallable (default_field self))
                [(''default'', PVal (field_default fdc)),
                 (''default_factory'',
                    (case field_default_factory fdc of None \<Rightarrow> PVal PyNone | Some f \<Rightarrow> PCallable f))]
                fdc
          | Some doc \<Rightarrow>
             (let doc1 = (if parse_msg_desc_method self \<noteq> MethodStr ''PGV''
                          then handle_template_var E doc else doc);
                  doc2 = (if \<not> (parse_msg_desc_method self = MethodNone
                                 \<or> parse_msg_desc_method self = MethodStr ''PGV'')
                          then field_comment_handler E doc1 (protobuf_field fdc) (field_type_name fdc)
                          else doc1)
              in
              case FieldParamModel_dict E doc2 of
                Inl e \<Rightarrow> Inl e
              | Inr p0 \<Rightarrow>
                 (case map_of p0 ''enable'' of
                    None \<Rightarrow> Inl KeyError
                  | Some enable \<Rightarrow>
                     if \<not> truthy_param enable then Inr (None, fdc)
                     else gen_field_info_enabled E self fdc doc2 p0))))"

subsection \<open>\<open>_parse_msg_to_pydantic_model\<close>\<close>

text \<open>The local dictionaries of one call, which the loop over the fields updates.\<close>

record parse_locals =
  l_annotation_dict :: "(string \<times> py_type \<times> field_info) list"
  l_validators :: "(string \<times> string) list"
  l_pydantic_model_config_dict :: "(string \<times> bool) list"
  l_nested_message_dict :: "(string \<times> nat) list"

text \<open>
  The body of the loop \<open>for protobuf_field in descriptor.fields\<close>, in two steps. The first
  goes from the creation of the \<open>FieldDataClass\<close> to the call of \<open>_gen_field_info\<close>.
\<close>

definition resolve_field ::
  "parse_fun \<Rightarrow> env \<Rightarrow> m2p \<Rightarrow> descriptor \<Rightarrow> bool \<Rightarrow> field_descriptor \<Rightarrow> parse_locals \<Rightarrow>
   state \<Rightarrow> (field_info option \<times> field_dataclass) res" where
  "resolve_field rec E self desc skip_validate_rule pfield L s =
     (let fdc =
            \<lparr> field_name = f_name pfield,
              field_type = (case map_of (protobuf_desc_python_type_dict E) (f_type pfield) of
                              None \<Rightarrow> TNone | Some t \<Rightarrow> t),
              field_type_name = map_of (protobuf_common_type_dict E) (f_type pfield),
              field_default = PyUndefined,
              field_default_factory = None,
              protobuf_field = pfield,
              nested_message_dict = l_nested_message_dict L,
              descriptor = desc,
              validators = l_validators L \<rparr>
      in
      bind (if f_type pfield = TYPE_MESSAGE
            then protobuf_field_type_is_type_message_handler rec E self fdc s
            else if f_type pfield = TYPE_ENUM
            then protobuf_field_type_is_type_enum_handler fdc s
            else returns (fdc\<lparr>field_default := f_default_value pfield\<rparr>) s)
        (\<lambda>fdc1 s1.
           lift (gen_field_info E self
                   (if f_label pfield = LABEL_REPEATED
                    then protobuf_field_lable_is_label_repeated_handler E fdc1 else fdc1)
                   skip_validate_rule) s1))"

text \<open>
  The second step is the rest of the body: \<open>continue\<close> when there is no field info, the
  proto3 optional wrapping, the entry of \<open>annotation_dict\<close>, and the configuration for
  \<open>AnyMessage\<close> (the type named so). The value stored in \<open>field_default\<close> by the optional
  wrapping is not read afterwards: the entry of \<open>annotation_dict\<close> holds the type and the
  field info only.
\<close>

definition emit_field ::
  "m2p \<Rightarrow> (string \<times> bool) list \<Rightarrow> field_descriptor \<Rightarrow> parse_locals \<Rightarrow>
   field_info option \<times> field_dataclass \<Rightarrow> parse_locals" where
  "emit_field self optional_dict pfield L r =
     (case r of
        (None, fdc3) \<Rightarrow>
          L\<lparr>l_validators := validators fdc3,
            l_nested_message_dict := nested_message_dict fdc3\<rparr>
      | (Some info, fdc3) \<Rightarrow>
          (let fdc4 =
                 (if dict_flag optional_dict (f_full_name pfield)
                  then fdc3\<lparr>field_type := TOptional (field_type fdc3),
                            field_default := (if field_default fdc3 = PyUndefined then PyNone
                                              else field_default fdc3)\<rparr>
                  else fdc3)
           in \<lparr> l_annotation_dict =
                   AList.update (field_name fdc4) (field_type fdc4, info) (l_annotation_dict L),
                 l_validators = validators fdc4,
                 l_pydantic_model_config_dict =
                   (if field_type fdc4 = TNamed ''AnyMessage''
                       \<and> \<not> pydantic_base_arbitrary_types_allowed self
                    then AList.update ''arbitrary_types_allowed'' True
                           (l_pydantic_model_config_dict L)
                    else l_pydantic_model_config_dict L),
                 l_nested_message_dict = nested_message_dict fdc4 \<rparr>))"

definition parse_field ::
  "parse_fun \<Rightarrow> env \<Rightarrow> m2p \<Rightarrow> descriptor \<Rightarrow> bool \<Rightarrow> (string \<times> bool) list \<Rightarrow>
   field_descriptor \<Rightarrow> parse_locals \<Rightarrow> state \<Rightarrow> parse_locals res" where
  "parse_field rec E self desc skip_validate_rule optional_dict pfield L s =
     bind (resolve_field rec E self desc skip_validate_rule pfield L s)
       (\<lambda>r s1. returns (emit_field self optional_dict pfield L r) s1)"

fun fields_loop ::
  "parse_fun \<Rightarrow> env \<Rightarrow> m2p \<Rightarrow> descriptor \<Rightarrow> bool \<Rightarrow> (string \<times> bool) list \<Rightarrow>
   field_descriptor list \<Rightarrow> parse_locals \<Rightarrow> state \<Rightarrow> parse_locals res" where
  "fields_loop rec E self desc skip_validate_rule optional_dict [] L s = returns L s"
| "fields_loop rec E self desc skip_validate_rule optional_dict (pfield # rest) L s =
     bind (parse_field rec E self desc skip_validate_rule optional_dict pfield L s)
       (\<lambda>L1 s1. fields_loop rec E self desc skip_validate_rule optional_dict rest L1 s1)"

text \<open>
  \<open>create_pydantic_model\<close> hands everything to pydantic's \<open>create_model\<close>; the class it
  returns is new. The second definition is the \<open>try\<close> statement around it.
\<close>

definition create_pydantic_model ::
  "env \<Rightarrow> m2p \<Rightarrow> (string \<times> py_type \<times> field_info) list \<Rightarrow> string \<Rightarrow>
   (string \<times> string) list \<Rightarrow> (string \<times> bool) list \<Rightarrow> state \<Rightarrow> nat res" where
  "create_pydantic_model E self annotation_dict class_name pydantic_validators config s =
     (case create_model_error E class_name annotation_dict config of
        Some msg \<Rightarrow> raises (PydanticError msg) s
      | None \<Rightarrow>
          (case new_class
                  \<lparr> c_name = class_name, c_is_enum = False, c_members = [],
                    c_annotation = annotation_dict, c_validators = pydantic_validators,
                    c_module = pydantic_module self, c_config = config,
                    c_doc = None, c_is_nested = None, c_is_use = None,
                    c_code_ref = None, c_one_of_dict = None \<rparr> s of
             (r, s1) \<Rightarrow> returns r s1))"

definition create_with_retry ::
  "env \<Rightarrow> m2p \<Rightarrow> (string \<times> py_type \<times> field_info) list \<Rightarrow> string \<Rightarrow>
   (string \<times> string) list \<Rightarrow> (string \<times> bool) list \<Rightarrow> state \<Rightarrow> nat res" where
  "create_with_retry E self annotation_dict class_name pydantic_validators config s =
     (case create_pydantic_model E self annotation_dict class_name pydantic_validators config s of
        Some (Inl (PydanticError msg), s1) \<Rightarrow>
          if contains_str ''arbitrary_types_allowed'' msg
          then create_pydantic_model E self annotation_dict class_name pydantic_validators
                 (AList.update ''arbitrary_types_allowed'' True config) s1
          else raises (PydanticError msg) s1
      | r \<Rightarrow> r)"

definition is_use :: "state \<Rightarrow> nat \<Rightarrow> bool" where
  "is_use s r = (r < length (heap s) \<and> c_is_use (heap s ! r) = Some True)"

text \<open>
  The end of \<open>_parse_msg_to_pydantic_model\<close>: \<open>CodeRefModel.set_to_model\<close>, the attribute
  \<open>_one_of_dict\<close>, the entry of the cache, and the return.
\<close>

definition register_model ::
  "m2p \<Rightarrow> message_key \<Rightarrow> (string \<times> use_one_of) list \<Rightarrow> (string \<times> nat) list \<Rightarrow>
   (string \<times> string) list \<Rightarrow> nat \<Rightarrow> state \<Rightarrow> nat res" where
  "register_model self message_key one_of_dict nested vs pydantic_model s =
     (let s1 = set_class_attr pydantic_model
                 (\<lambda>c. c\<lparr>c_code_ref :=
                          Some \<lparr> cr_one_of_dict = one_of_dict,
                                 cr_nested_message_dict = filter (\<lambda>(k, v). is_use s v) nested,
                                 cr_validators = vs \<rparr>\<rparr>) s;
          s2 = set_class_attr pydantic_model (\<lambda>c. c\<lparr>c_one_of_dict := Some one_of_dict\<rparr>) s1
      in returns pydantic_model (cache_set self message_key (Some pydantic_model) s2))"

text \<open>
  The part after the loop over the fields: the \<open>one_of_validator\<close>, the creation of the
  model, and its registration.
\<close>

definition build_model ::
  "env \<Rightarrow> m2p \<Rightarrow> message_key \<Rightarrow> (string \<times> use_one_of) list \<Rightarrow> parse_locals \<Rightarrow> state \<Rightarrow> nat res" where
  "build_model E self message_key one_of_dict L s =
     (let vs = (if one_of_dict \<noteq> []
                then AList.update ''one_of_validator'' ''check_one_of'' (l_validators L)
                else l_validators L)
      in bind (create_with_retry E self (l_annotation_dict L) (fst (snd message_key)) vs
                 (l_pydantic_model_config_dict L) s)
           (register_model self message_key one_of_dict (l_nested_message_dict L) vs))"

text \<open>
  The part of \<open>_parse_msg_to_pydantic_model\<close> after the in-progress entry \<open>None\<close> has been
  stored under the key.
\<close>

definition generate_model ::
  "parse_fun \<Rightarrow> env \<Rightarrow> m2p \<Rightarrow> descriptor \<Rightarrow> message_key \<Rightarrow> state \<Rightarrow> nat res" where
  "generate_model rec E self desc message_key s =
     bind (get_nested_message_dict_by_message rec E desc s)
       (\<lambda>nested s1.
          case one_of_handle self desc of
            (one_of_dict, optional_dict) \<Rightarrow>
              bind (fields_loop rec E self desc (snd (snd message_key)) optional_dict (d_fields desc)
                      \<lparr> l_annotation_dict = [], l_validators = [],
                        l_pydantic_model_config_dict = [], l_nested_message_dict = nested \<rparr> s1)
                (build_model E self message_key one_of_dict))"

text \<open>
  The first two lines compute the key: \<open>class_name or descriptor.name\<close> and the triple.
\<close>

definition message_key_of :: "env \<Rightarrow> desc_ref \<Rightarrow> string \<Rightarrow> bool \<Rightarrow> message_key" where
  "message_key_of E dref class_name skip_validate_rule =
     (d_full_name (pool E dref),
      (if class_name = [] then d_name (pool E dref) else class_name),
      skip_validate_rule)"

definition parse_step ::
  "parse_fun \<Rightarrow> env \<Rightarrow> m2p \<Rightarrow> desc_ref \<Rightarrow> string \<Rightarrow> bool \<Rightarrow> state \<Rightarrow> nat res" where
  "parse_step rec E self dref class_name skip_validate_rule s =
     (let message_key = message_key_of E dref class_name skip_validate_rule
      in case map_of (cache_of self s) message_key of
           Some None \<Rightarrow> raises WaitingToCompleteException s
         | Some (Some model) \<Rightarrow> returns model s
         | None \<Rightarrow>
             generate_model rec E self (pool E dref) message_key
               (cache_set self message_key None s))"

text \<open>
  \<open>_parse_msg_to_pydantic_model\<close> with a bound on the depth of the recursion: at depth
  \<open>0\<close> a recursive call yields \<open>None\<close>. The lookup in the cache needs no depth.
\<close>

primrec parse_msg_to_pydantic_model ::
  "nat \<Rightarrow> env \<Rightarrow> m2p \<Rightarrow> desc_ref \<Rightarrow> string \<Rightarrow> bool \<Rightarrow> state \<Rightarrow> nat res" where
  "parse_msg_to_pydantic_model 0 E self =
     parse_step (\<lambda>dref class_name skip_validate_rule s. None) E self"
| "parse_msg_to_pydantic_model (Suc depth) E self =
     parse_step (parse_msg_to_pydantic_model depth E self) E self"

subsection \<open>\<open>M2P.__init__\<close> and the module-level cache\<close>

text \<open>
  Of \<open>M2P.__init__\<close> the model keeps the choice of the cache,
  \<open>create_model_cache or _create_model_cache\<close> (an empty dict is false in Python), and the
  call that generates the model of the root message; the other attributes of the object are
  given by \<open>cfg\<close>.
\<close>

definition choose_cache :: "cache_ref option \<Rightarrow> state \<Rightarrow> cache_ref" where
  "choose_cache create_model_cache s =
     (case create_model_cache of
        None \<Rightarrow> ModuleCache
      | Some r \<Rightarrow> if store s r = [] then ModuleCache else r)"

definition M2P_init ::
  "nat \<Rightarrow> env \<Rightarrow> m2p \<Rightarrow> desc_ref \<Rightarrow> cache_ref option \<Rightarrow> state \<Rightarrow> (m2p \<times> nat) res" where
  "M2P_init depth E cfg msg create_model_cache s =
     (let self = cfg\<lparr>creat_cache := choose_cache create_model_cache s\<rparr>
      in bind (parse_msg_to_pydantic_model depth E self msg [] False s)
           (\<lambda>gen_model s1. returns (self, gen_model) s1))"

definition msg_to_pydantic_model ::
  "nat \<Rightarrow> env \<Rightarrow> m2p \<Rightarrow> desc_ref \<Rightarrow> cache_ref option \<Rightarrow> state \<Rightarrow> nat res" where
  "msg_to_pydantic_model depth E cfg msg create_model_cache s =
     bind (M2P_init depth E cfg msg create_model_cache s) (\<lambda>r s1. returns (snd r) s1)"

definition clear_create_model_cache :: "state \<Rightarrow> state" where
  "clear_create_model_cache s = s\<lparr>store := (store s)(ModuleCache := [])\<rparr>"

section \<open>Properties of the validators\<close>

lemma startswith_iff_prefix: "startswith v p \<longleftrightarrow> prefix p v"
proof
  assume "startswith v p"
  then have "v = p @ drop (length p) v"
    unfolding startswith_def by (metis append_take_drop_id)
  then show "prefix p v" by (metis prefixI)
next
  assume "prefix p v"
  then obtain r where "v = p @ r" by (auto elim: prefixE)
  then show "startswith v p" by (simp add: startswith_def)
qed

lemma endswith_iff_suffix: "endswith v p \<longleftrightarrow> suffix p v"
proof
  assume "endswith v p"
  then have "v = take (length v - length p) v @ p"
    unfolding endswith_def by (metis append_take_drop_id)
  then show "suffix p v" by (metis suffixI)
next
  assume "suffix p v"
  then obtain r where "v = r @ p" by (auto elim: suffixE)
  then show "endswith v p" by (simp add: endswith_def)
qed

text \<open>
  C10. With an operand \<open>s\<close> configured, the suffix validator returns \<open>v\<close> exactly when
  \<open>v\<close> starts with \<open>s\<close>; in particular a value that ends with \<open>s\<close> without starting with
  it is rejected with \<open>ValueError\<close>.
\<close>

theorem suffix_validator_tests_start:
  assumes "extra ''suffix'' = Some s"
  shows "(suffix_validator extra v = Inr v \<longleftrightarrow> prefix s v)
       \<and> (suffix_validator extra v = Inl ValueError \<longleftrightarrow> \<not> prefix s v)
       \<and> (suffix s v \<and> \<not> prefix s v \<longrightarrow> suffix_validator extra v = Inl ValueError)"
  using assms by (simp add: suffix_validator_def startswith_iff_prefix)

theorem suffix_validator_tests_start_witness:
  "[''suffix'' \<mapsto> ''.py''] ''suffix'' = Some ''.py''
   \<and> suffix ''.py'' ''main.py'' \<and> \<not> prefix ''.py'' ''main.py''
   \<and> suffix_validator [''suffix'' \<mapsto> ''.py''] ''main.py'' = Inl ValueError
   \<and> suffix_validator [''suffix'' \<mapsto> ''.py''] ''.pyc'' = Inr ''.pyc''"
proof -
  have h: "[''suffix'' \<mapsto> ''.py''] ''suffix'' = Some ''.py''" by simp
  have s: "suffix ''.py'' ''main.py''" by (simp add: suffix_def)
  have p: "\<not> prefix ''.py'' ''main.py''" by simp
  have q: "prefix ''.py'' ''.pyc''" by simp
  from suffix_validator_tests_start [of "[''suffix'' \<mapsto> ''.py'']" "''.py''" "''main.py''"] h s p
  have a: "suffix_validator [''suffix'' \<mapsto> ''.py''] ''main.py'' = Inl ValueError" by blast
  from suffix_validator_tests_start [of "[''suffix'' \<mapsto> ''.py'']" "''.py''" "''.pyc''"] h q
  have b: "suffix_validator [''suffix'' \<mapsto> ''.py''] ''.pyc'' = Inr ''.pyc''" by blast
  from h s p a b show ?thesis by blast
qed





section \<open>Properties of the PGV description reader\<close>

















end
